theory Spec2Isabelle
  imports Complex_Main "HOL-Library.Code_Target_Nat"
begin

section \<open>OpenHamClock server: DX cluster acquisition layer\<close>

text \<open>
  A shallow embedding of the DX cluster part of \<^verbatim>\<open>server.js\<close>: the HamQTH CSV fetcher,
  the DX Spider telnet session, the source selection of \<^verbatim>\<open>/api/dxcluster/spots\<close>, the
  module-level caches, the path builder of \<^verbatim>\<open>/api/dxcluster/paths\<close> and the prefix table
  of \<^verbatim>\<open>estimateLocationFromPrefix\<close>.

  Conventions of the model:
  \<^item> JavaScript strings are \<^typ>\<open>string\<close>; the characters are read as code units below 256.
  \<^item> \<^verbatim>\<open>null\<close> and \<^verbatim>\<open>undefined\<close> are \<^const>\<open>None\<close>; an exception is a value \<open>Inl err\<close>.
  \<^item> What an upstream does is an argument of the function that calls it: the outcome of
    the HTTP request, the chunks and the end of the socket session, and the milliseconds
    they take. Readings of \<^verbatim>\<open>Date.now()\<close> are integers.
  \<^item> Module-level variables are passed in and returned; requests are served one after
    the other.
\<close>

subsection \<open>Strings\<close>

text \<open>
  The white space of \<^verbatim>\<open>String.prototype.trim\<close>, of the regular expression class
  \<^verbatim>\<open>\s\<close> and of \<^verbatim>\<open>parseFloat\<close>, among the code units below 256: TAB, LF, VT, FF, CR,
  space and the no-break space.
\<close>

definition isSpace :: "char \<Rightarrow> bool" where
  "isSpace c = (c \<in> set [CHR 0x09, CHR 0x0A, CHR 0x0B, CHR 0x0C, CHR 0x0D, CHR '' '', CHR 0xA0])"

definition isDigit :: "char \<Rightarrow> bool" where
  "isDigit c = (c \<in> set ''0123456789'')"

definition trim :: "string \<Rightarrow> string" where
  "trim s = rev (dropWhile isSpace (rev (dropWhile isSpace s)))"

text \<open>\<^verbatim>\<open>s.split(c)\<close> for a one-character separator: never an empty array.\<close>

fun split_on :: "char \<Rightarrow> string \<Rightarrow> string list" where
  "split_on c [] = [[]]"
| "split_on c (x # xs) =
     (if x = c then [] # split_on c xs
      else (case split_on c xs of
              [] \<Rightarrow> [[x]]
            | p # ps \<Rightarrow> (x # p) # ps))"

text \<open>\<^verbatim>\<open>s.includes(sub)\<close>\<close>

fun str_includes :: "string \<Rightarrow> string \<Rightarrow> bool" where
  "str_includes [] sub = (sub = [])"
| "str_includes (c # cs) sub = (take (length sub) (c # cs) = sub \<or> str_includes cs sub)"

text \<open>
  \<^verbatim>\<open>parts[i] || d\<close> for an array of strings: the default is taken when the index is out
  of range (\<^verbatim>\<open>undefined\<close>) and when the element is the empty string.
\<close>

definition field_or :: "string list \<Rightarrow> nat \<Rightarrow> string \<Rightarrow> string" where
  "field_or parts i d = (if i < length parts \<and> parts ! i \<noteq> [] then parts ! i else d)"

text \<open>\<^verbatim>\<open>toLowerCase\<close> on code units below 256.\<close>

definition lower_char :: "char \<Rightarrow> char" where
  "lower_char c =
     (let n = (of_char c :: nat) in
      if (65 \<le> n \<and> n \<le> 90) \<or> (192 \<le> n \<and> n \<le> 222 \<and> n \<noteq> 215)
      then char_of (n + 32) else c)"

definition toLowerCase :: "string \<Rightarrow> string" where
  "toLowerCase s = map lower_char s"

subsection \<open>Numbers\<close>

text \<open>
  The numbers of this code are the results of \<^verbatim>\<open>parseFloat\<close> on a decimal literal, of one
  division by 1000 and of comparisons with literals. A finite number is modelled as an
  exact decimal \<open>\<plusminus> m \<times> 10\<^sup>e\<close> (\<open>Dec neg m e\<close>); \<open>NaN\<close> and the infinities are values of
  their own. The rounding of a literal to the nearest binary64 value is not modelled: the
  model and the program agree where the literal has at most 15 significant digits and no
  result lies on a rounding boundary.
\<close>

datatype jsnum = NaN | Infinity bool | Dec bool nat int

definition digit_val :: "char \<Rightarrow> nat" where
  "digit_val c = of_char c - 48"

definition digit_char :: "nat \<Rightarrow> char" where
  "digit_char d = ''0123456789'' ! d"

definition nat_of_digits :: "string \<Rightarrow> nat" where
  "nat_of_digits ds = foldl (\<lambda>a c. 10 * a + digit_val c) 0 ds"

fun digits_of :: "nat \<Rightarrow> string" where
  "digits_of n =
     (if n < 10 then [digit_char n] else digits_of (n div 10) @ [digit_char (n mod 10)])"

declare digits_of.simps [simp del]

text \<open>The exponent part of a decimal literal: it counts only when it has digits.\<close>

definition parse_exponent :: "string \<Rightarrow> int" where
  "parse_exponent r =
     (case r of
        [] \<Rightarrow> 0
      | c # r1 \<Rightarrow>
          if c = CHR ''e'' \<or> c = CHR ''E'' then
            (let (neg, r2) = (case r1 of
                                [] \<Rightarrow> (False, r1)
                              | d # r3 \<Rightarrow> if d = CHR ''-'' then (True, r3)
                                          else if d = CHR ''+'' then (False, r3)
                                          else (False, r1));
                 ds = takeWhile isDigit r2
             in if ds = [] then 0
                else if neg then - int (nat_of_digits ds) else int (nat_of_digits ds))
          else 0)"

text \<open>
  \<^verbatim>\<open>parseFloat\<close>: leading white space is skipped, then the longest prefix that is a
  decimal literal is read (sign, \<^verbatim>\<open>Infinity\<close>, or digits with an optional fraction and
  exponent); with no such prefix the result is \<open>NaN\<close>.
\<close>

definition parseFloat :: "string \<Rightarrow> jsnum" where
  "parseFloat s =
     (let t = dropWhile isSpace s;
          (neg, u) = (case t of
                        [] \<Rightarrow> (False, t)
                      | c # r \<Rightarrow> if c = CHR ''-'' then (True, r)
                                  else if c = CHR ''+'' then (False, r)
                                  else (False, t))
      in if take 8 u = ''Infinity'' then Infinity neg
         else
           (let ip = takeWhile isDigit u;
                r1 = dropWhile isDigit u;
                (fp, r2) = (case r1 of
                              [] \<Rightarrow> ([], r1)
                            | c # r \<Rightarrow> if c = CHR ''.''
                                        then (takeWhile isDigit r, dropWhile isDigit r)
                                        else ([], r1))
            in if ip = [] \<and> fp = [] then NaN
               else Dec neg (nat_of_digits (ip @ fp)) (parse_exponent r2 - int (length fp))))"

text \<open>\<^verbatim>\<open>parseFloat(undefined)\<close> reads the string \<^verbatim>\<open>"undefined"\<close>.\<close>

definition parseFloat_at :: "string list \<Rightarrow> nat \<Rightarrow> jsnum" where
  "parseFloat_at parts i = parseFloat (if i < length parts then parts ! i else ''undefined'')"

definition js_truthy :: "jsnum \<Rightarrow> bool" where
  "js_truthy x = (case x of NaN \<Rightarrow> False | Infinity _ \<Rightarrow> True | Dec _ m _ \<Rightarrow> m \<noteq> 0)"

text \<open>\<^verbatim>\<open>x || 0\<close>\<close>

definition or_zero :: "jsnum \<Rightarrow> jsnum" where
  "or_zero x = (if js_truthy x then x else Dec False 0 0)"

definition isNaN :: "jsnum \<Rightarrow> bool" where
  "isNaN x = (x = NaN)"

text \<open>\<^verbatim>\<open>x > k\<close> and \<^verbatim>\<open>x >= k\<close> for a natural number \<open>k\<close>, on whole numbers.\<close>

definition js_gt :: "jsnum \<Rightarrow> nat \<Rightarrow> bool" where
  "js_gt x k =
     (case x of
        NaN \<Rightarrow> False
      | Infinity neg \<Rightarrow> \<not> neg
      | Dec neg m e \<Rightarrow> \<not> neg \<and> k * 10 ^ nat (- e) < m * 10 ^ nat e)"

definition js_ge :: "jsnum \<Rightarrow> nat \<Rightarrow> bool" where
  "js_ge x k =
     (case x of
        NaN \<Rightarrow> False
      | Infinity neg \<Rightarrow> \<not> neg
      | Dec neg m e \<Rightarrow> (\<not> neg \<or> (m = 0 \<and> k = 0)) \<and> k * 10 ^ nat (- e) \<le> m * 10 ^ nat e)"

text \<open>\<^verbatim>\<open>x / 1000\<close>\<close>

definition div1000 :: "jsnum \<Rightarrow> jsnum" where
  "div1000 x =
     (case x of NaN \<Rightarrow> NaN | Infinity neg \<Rightarrow> Infinity neg | Dec neg m e \<Rightarrow> Dec neg m (e - 3))"

definition strip_zeros :: "string \<Rightarrow> string" where
  "strip_zeros ds = rev (dropWhile (\<lambda>c. c = CHR ''0'') (rev ds))"

text \<open>
  \<^verbatim>\<open>Number::toString\<close> of a positive finite number with digits \<open>ds\<close> (\<open>k\<close> of them, no
  trailing zero) and decimal point after \<open>n\<close> digits: plain digits, a decimal point inside,
  a leading \<^verbatim>\<open>0.\<close>, or the exponent form outside \<open>10\<^sup>-\<^sup>6 .. 10\<^sup>2\<^sup>1\<close>.
\<close>

definition posToString :: "nat \<Rightarrow> int \<Rightarrow> string" where
  "posToString m e =
     (let ds0 = digits_of m;
          ds = strip_zeros ds0;
          k = length ds;
          n = int k + (e + int (length ds0 - length ds))
      in if int k \<le> n \<and> n \<le> 21 then ds @ replicate (nat (n - int k)) CHR ''0''
         else if 0 < n \<and> n \<le> 21 then take (nat n) ds @ ''.'' @ drop (nat n) ds
         else if - 6 < n \<and> n \<le> 0 then ''0.'' @ replicate (nat (- n)) CHR ''0'' @ ds
         else
           (let ex = n - 1;
                estr = (if ex < 0 then ''-'' else ''+'') @ digits_of (nat \<bar>ex\<bar>)
            in if k = 1 then ds @ ''e'' @ estr
               else take 1 ds @ ''.'' @ drop 1 ds @ ''e'' @ estr))"

text \<open>\<^verbatim>\<open>String(x)\<close>\<close>

definition numToString :: "jsnum \<Rightarrow> string" where
  "numToString x =
     (case x of
        NaN \<Rightarrow> ''NaN''
      | Infinity neg \<Rightarrow> (if neg then ''-Infinity'' else ''Infinity'')
      | Dec neg m e \<Rightarrow>
          if m = 0 then ''0''
          else (if neg then ''-'' else '''') @ posToString m e)"

text \<open>
  \<^verbatim>\<open>x.toFixed(3)\<close>. \<open>round3 m e\<close> is the integer \<open>n\<close> for which \<open>n / 1000\<close> is closest to
  \<open>m \<times> 10\<^sup>e\<close>, the larger one of two; \<open>fixed3 n\<close> writes it with at least one digit before
  the point and three after. A number that is not finite, or is at least \<open>10\<^sup>2\<^sup>1\<close>, is rendered
  as by \<^verbatim>\<open>String(x)\<close>.
\<close>

definition round3 :: "nat \<Rightarrow> int \<Rightarrow> nat" where
  "round3 m e =
     (2 * m * 10 ^ nat (e + 3) + 10 ^ nat (- (e + 3))) div (2 * 10 ^ nat (- (e + 3)))"

definition fixed3 :: "nat \<Rightarrow> string" where
  "fixed3 n =
     (let m = digits_of n;
          m' = (if length m \<le> 3 then replicate (3 + 1 - length m) CHR ''0'' @ m else m);
          k = length m'
      in take (k - 3) m' @ ''.'' @ drop (k - 3) m')"

definition toFixed3 :: "jsnum \<Rightarrow> string" where
  "toFixed3 x =
     (case x of
        NaN \<Rightarrow> numToString x
      | Infinity neg \<Rightarrow> numToString x
      | Dec neg m e \<Rightarrow>
          (let s = (if neg \<and> m \<noteq> 0 then ''-'' else '''') in
           if js_ge (Dec False m e) (10 ^ 21) then s @ posToString m e
           else s @ fixed3 (round3 m e)))"

subsection \<open>Spots\<close>

datatype source_tag = HamQTH | DXSpider

record spot =
  freq :: string
  call :: string
  comment :: string
  time :: string
  spotter :: string
  source :: source_tag

subsection \<open>The HamQTH fetcher (\<^verbatim>\<open>fetchHamQTH\<close>)\<close>

text \<open>\<^verbatim>\<open>HH:MMz\<close> from the first four characters of a time token.\<close>

definition hhmm :: "string \<Rightarrow> string" where
  "hhmm timeStr = take 2 timeStr @ '':'' @ take 2 (drop 2 timeStr) @ ''z''"

text \<open>The body of the \<^verbatim>\<open>map\<close> callback: one line of the CSV to one spot.\<close>

definition hamqth_spot :: "string \<Rightarrow> spot" where
  "hamqth_spot line =
     (let parts = split_on CHR ''^'' line;
          spotter' = field_or parts 0 '''';
          freqKhz = or_zero (parseFloat_at parts 1);
          dxCall = field_or parts 2 ''UNKNOWN'';
          comment' = field_or parts 3 '''';
          timeDate = field_or parts 4 '''';
          freqMhz = (if js_gt freqKhz 1000 then toFixed3 (div1000 freqKhz)
                     else numToString freqKhz);
          time' = (if timeDate \<noteq> [] \<and> 4 \<le> length timeDate then hhmm (take 4 timeDate)
                   else '''')
      in \<lparr>freq = freqMhz, call = dxCall, comment = comment', time = time',
          spotter = spotter', source = HamQTH\<rparr>)"

text \<open>
  \<^verbatim>\<open>text.trim().split('\n').filter(line => line.includes('^'))\<close>, then the first 25 lines
  mapped to spots; with no line left the function falls through to \<^verbatim>\<open>return null\<close>.
\<close>

definition has_caret :: "string \<Rightarrow> bool" where
  "has_caret line = (CHR ''^'' \<in> set line)"

definition hamqth_lines :: "string \<Rightarrow> string list" where
  "hamqth_lines body = filter has_caret (split_on CHR 0x0A (trim body))"


definition hamqth_parse :: "string \<Rightarrow> spot list option" where
  "hamqth_parse body =
     (let lines = hamqth_lines body in
      if 0 < length lines then Some (map hamqth_spot (take 25 lines)) else None)"

text \<open>
  What the upstream can do to one HTTP request: \<^verbatim>\<open>fetch\<close> rejects (a transport error, or
  the abort at the 10 s timeout), or it resolves with a response whose \<^verbatim>\<open>ok\<close> flag is
  given and whose body either fails to be read or is a string.
\<close>

datatype js_error = AbortError | OtherError

datatype body_outcome = BodyRejects js_error | Body string

datatype http_outcome = FetchRejects js_error | Response bool body_outcome

text \<open>
  The \<^verbatim>\<open>try\<close> block of \<^verbatim>\<open>fetchHamQTH\<close>: \<open>Inl\<close> is an exception thrown inside it,
  \<open>Inr (Some spots)\<close> the \<^verbatim>\<open>return spots\<close>, \<open>Inr None\<close> leaving the block without a return.
\<close>

definition hamqth_try :: "http_outcome \<Rightarrow> js_error + spot list option" where
  "hamqth_try upstream =
     (case upstream of
        FetchRejects err \<Rightarrow> Inl err
      | Response ok body \<Rightarrow>
          if ok then
            (case body of
               BodyRejects err \<Rightarrow> Inl err
             | Body txt \<Rightarrow> Inr (hamqth_parse txt))
          else Inr None)"

text \<open>
  The whole function: the \<^verbatim>\<open>catch\<close> clause logs and falls through, and the last statement
  is \<^verbatim>\<open>return null\<close>. The result is \<open>Inl\<close> if an exception leaves the function.
\<close>

definition fetchHamQTH :: "http_outcome \<Rightarrow> js_error + spot list option" where
  "fetchHamQTH upstream =
     (case hamqth_try upstream of
        Inl err \<Rightarrow> Inr None
      | Inr (Some spots) \<Rightarrow> Inr (Some spots)
      | Inr None \<Rightarrow> Inr None)"

subsection \<open>Regular expressions\<close>

text \<open>
  The backtracking matcher of JavaScript regular expressions, for the constructs the
  DX Spider pattern uses. A matcher takes the continuation that matches the rest of the
  pattern and the remaining input; \<open>None\<close> is failure, on which the caller tries its
  next alternative. A greedy quantifier tries the longest repetition first, a lazy one the
  shortest.
\<close>

type_synonym 'r cont = "string \<Rightarrow> 'r option"

definition rx_char :: "(char \<Rightarrow> bool) \<Rightarrow> 'r cont \<Rightarrow> 'r cont" where
  "rx_char P k s = (case s of [] \<Rightarrow> None | c # cs \<Rightarrow> if P c then k cs else None)"

text \<open>\<^verbatim>\<open>P*\<close>\<close>

fun rx_star :: "(char \<Rightarrow> bool) \<Rightarrow> 'r cont \<Rightarrow> 'r cont" where
  "rx_star P k [] = k []"
| "rx_star P k (c # cs) =
     (if P c then
        (case rx_star P k cs of
           Some r \<Rightarrow> Some r
         | None \<Rightarrow> k (c # cs))
      else k (c # cs))"

text \<open>\<^verbatim>\<open>P+\<close>\<close>

definition rx_plus :: "(char \<Rightarrow> bool) \<Rightarrow> 'r cont \<Rightarrow> 'r cont" where
  "rx_plus P k = rx_char P (rx_star P k)"

text \<open>\<^verbatim>\<open>P?\<close>\<close>

definition rx_opt :: "(char \<Rightarrow> bool) \<Rightarrow> 'r cont \<Rightarrow> 'r cont" where
  "rx_opt P k s =
     (case rx_char P k s of
        Some r \<Rightarrow> Some r
      | None \<Rightarrow> k s)"

text \<open>\<^verbatim>\<open>P*?\<close> and \<^verbatim>\<open>P+?\<close>\<close>

fun rx_star_lazy :: "(char \<Rightarrow> bool) \<Rightarrow> 'r cont \<Rightarrow> 'r cont" where
  "rx_star_lazy P k [] = k []"
| "rx_star_lazy P k (c # cs) =
     (case k (c # cs) of
        Some r \<Rightarrow> Some r
      | None \<Rightarrow> if P c then rx_star_lazy P k cs else None)"

definition rx_plus_lazy :: "(char \<Rightarrow> bool) \<Rightarrow> 'r cont \<Rightarrow> 'r cont" where
  "rx_plus_lazy P k = rx_char P (rx_star_lazy P k)"

text \<open>
  The case mapping of the \<^verbatim>\<open>i\<close> flag, on code units below 256: a character of the
  pattern matches an input character with the same upper case.
\<close>

definition upper_char :: "char \<Rightarrow> char" where
  "upper_char c =
     (let n = (of_char c :: nat) in
      if (97 \<le> n \<and> n \<le> 122) \<or> (224 \<le> n \<and> n \<le> 254 \<and> n \<noteq> 247)
      then char_of (n - 32) else c)"

definition ci_eq :: "char \<Rightarrow> char \<Rightarrow> bool" where
  "ci_eq p c = (upper_char c = upper_char p)"

text \<open>A literal, character by character.\<close>

primrec rx_lit :: "string \<Rightarrow> 'r cont \<Rightarrow> 'r cont" where
  "rx_lit [] k = k"
| "rx_lit (p # ps) k = rx_char (ci_eq p) (rx_lit ps k)"

text \<open>
  A capture group: the continuation receives the substring the group matched, which is
  what the input lost while the group was matched.
\<close>

definition rx_group :: "((string \<Rightarrow> 'r option) \<Rightarrow> string \<Rightarrow> 'r option) \<Rightarrow> (string \<Rightarrow> 'r cont) \<Rightarrow> 'r cont" where
  "rx_group m k s = m (\<lambda>s'. k (take (length s - length s') s) s') s"

text \<open>\<^verbatim>\<open>String.prototype.match\<close> without the \<^verbatim>\<open>g\<close> flag: the first start position that matches.\<close>

fun rx_search :: "'r cont \<Rightarrow> 'r cont" where
  "rx_search m [] = m []"
| "rx_search m (c # cs) =
     (case m (c # cs) of
        Some r \<Rightarrow> Some r
      | None \<Rightarrow> rx_search m cs)"

subsection \<open>The DX Spider line parser\<close>

text \<open>
  The character classes of the pattern, under the \<^verbatim>\<open>i\<close> flag:
  \<^verbatim>\<open>[A-Z0-9\/\-]\<close>, and \<^verbatim>\<open>.\<close> (any character but a line terminator).
\<close>

definition callChar :: "char \<Rightarrow> bool" where
  "callChar c =
     (c \<in> set ''ABCDEFGHIJKLMNOPQRSTUVWXYZabcdefghijklmnopqrstuvwxyz0123456789/-'')"

definition anyChar :: "char \<Rightarrow> bool" where
  "anyChar c = (c \<noteq> CHR 0x0A \<and> c \<noteq> CHR 0x0D)"

definition isDot :: "char \<Rightarrow> bool" where
  "isDot c = (c = CHR ''.'')"

text \<open>
  \<^verbatim>\<open>/DX de ([A-Z0-9\/\-]+):\s+(\d+\.?\d*)\s+([A-Z0-9\/\-]+)\s+(.+?)\s+(\d{4})Z/i\<close>,
  with the five captured groups as the result.
\<close>

definition dx_regex :: "string \<Rightarrow> (string \<times> string \<times> string \<times> string \<times> string) option" where
  "dx_regex =
     rx_search
      (rx_lit ''DX de ''
      (rx_group (rx_plus callChar) (\<lambda>g1.
       rx_lit '':''
      (rx_plus isSpace
      (rx_group (\<lambda>k. rx_plus isDigit (rx_opt isDot (rx_star isDigit k))) (\<lambda>g2.
       rx_plus isSpace
      (rx_group (rx_plus callChar) (\<lambda>g3.
       rx_plus isSpace
      (rx_group (rx_plus_lazy anyChar) (\<lambda>g4.
       rx_plus isSpace
      (rx_group (\<lambda>k. rx_char isDigit (rx_char isDigit (rx_char isDigit (rx_char isDigit k)))) (\<lambda>g5.
       rx_lit ''Z''
      (\<lambda>rest. Some (g1, g2, g3, g4, g5))))))))))))))"

text \<open>\<^verbatim>\<open>s.replace(':', '')\<close>: the first colon is removed.\<close>

fun remove_first :: "char \<Rightarrow> string \<Rightarrow> string" where
  "remove_first c [] = []"
| "remove_first c (x # xs) = (if x = c then xs else x # remove_first c xs)"

text \<open>
  The spot a line yields, before the duplicate check: the line must contain
  \<^verbatim>\<open>DX de \<close> (as written), match the pattern, and carry a frequency that is a number
  above zero and a non-empty DX call.
\<close>

definition dx_spot :: "string \<Rightarrow> spot option" where
  "dx_spot line =
     (if str_includes line ''DX de '' then
        (case dx_regex line of
           None \<Rightarrow> None
         | Some (g1, g2, g3, g4, g5) \<Rightarrow>
             (let spotter' = remove_first CHR '':'' g1;
                  freqKhz = parseFloat g2;
                  dxCall = g3;
                  comment' = trim g4;
                  timeStr = g5
              in if \<not> isNaN freqKhz \<and> js_gt freqKhz 0 \<and> dxCall \<noteq> [] then
                   Some \<lparr>freq = toFixed3 (div1000 freqKhz), call = dxCall, comment = comment',
                         time = hhmm timeStr, spotter = spotter', source = DXSpider\<rparr>
                 else None))
      else None)"

text \<open>
  One turn of the loop over the lines: the spot is pushed unless
  \<^verbatim>\<open>spots.find(s => s.call === dxCall && s.freq === freqMhz)\<close> finds one.
\<close>

definition dx_line :: "spot list \<Rightarrow> string \<Rightarrow> spot list" where
  "dx_line spots line =
     (case dx_spot line of
        None \<Rightarrow> spots
      | Some new \<Rightarrow>
          (case find (\<lambda>s. call s = call new \<and> freq s = freq new) spots of
             None \<Rightarrow> spots @ [new]
           | Some _ \<Rightarrow> spots))"

text \<open>\<^verbatim>\<open>for (const line of buffer.split('\n'))\<close>\<close>

definition parse_buffer :: "spot list \<Rightarrow> string \<Rightarrow> spot list" where
  "parse_buffer spots buf = foldl dx_line spots (split_on CHR 0x0A buf)"

subsection \<open>The DX Spider session (\<^verbatim>\<open>fetchDXSpider\<close>)\<close>

text \<open>
  \<^verbatim>\<open>let dxSpiderCache = { spots: [], timestamp: 0 }\<close> and its time to live. Times are
  readings of \<^verbatim>\<open>Date.now()\<close>, in milliseconds.
\<close>

record dx_cache =
  cache_spots :: "spot list"
  cache_timestamp :: int

definition dxSpiderCache_init :: dx_cache where
  "dxSpiderCache_init = \<lparr>cache_spots = [], cache_timestamp = 0\<rparr>"

definition DXSPIDER_CACHE_TTL :: int where
  "DXSPIDER_CACHE_TTL = 60000"

text \<open>
  The variables the socket's event handlers share: \<^verbatim>\<open>spots\<close>, \<^verbatim>\<open>buffer\<close>,
  \<^verbatim>\<open>loginSent\<close>, \<^verbatim>\<open>commandSent\<close>; \<open>sent\<close> lists what the handlers hand to
  \<^verbatim>\<open>client.write\<close>, and \<open>destroying\<close> says that \<^verbatim>\<open>client.destroy\<close> has been scheduled.
\<close>

record session =
  sess_spots :: "spot list"
  sess_buffer :: string
  loginSent :: bool
  commandSent :: bool
  sent :: "string list"
  destroying :: bool

definition new_session :: session where
  "new_session =
     \<lparr>sess_spots = [], sess_buffer = [], loginSent = False, commandSent = False,
      sent = [], destroying = False\<rparr>"

definition crlf :: string where
  "crlf = [CHR 0x0D, CHR 0x0A]"

text \<open>
  The \<^verbatim>\<open>'data'\<close> handler. The login and the command branches return early, so a chunk
  that triggers one of them is parsed only when the next chunk arrives; the whole buffer is
  parsed again on every later chunk.
\<close>

definition on_data :: "session \<Rightarrow> string \<Rightarrow> session" where
  "on_data st chunk =
     (let buf = sess_buffer st @ chunk;
          st1 = st\<lparr>sess_buffer := buf\<rparr>
      in if \<not> loginSent st1 \<and>
            (str_includes buf ''login:'' \<or> str_includes buf ''Please enter your call''
             \<or> str_includes buf ''enter your callsign'')
         then st1\<lparr>loginSent := True, sent := sent st1 @ [''GUEST'' @ crlf]\<rparr>
         else if loginSent st1 \<and> \<not> commandSent st1 \<and>
            (str_includes buf ''Hello'' \<or> str_includes buf ''de '' \<or> str_includes buf ''>''
             \<or> str_includes buf ''GUEST'')
         then st1\<lparr>commandSent := True, sent := sent st1 @ [''sh/dx 25'' @ crlf]\<rparr>
         else
           (let st2 = st1\<lparr>sess_spots := parse_buffer (sess_spots st1) buf\<rparr>
            in if 20 \<le> length (sess_spots st2)
               then st2\<lparr>sent := sent st2 @ [''bye'' @ crlf], destroying := True\<rparr>
               else st2))"

text \<open>
  A promise is pending (\<open>None\<close>) or resolved with a value; resolving a resolved promise
  changes nothing. The value is \<^verbatim>\<open>null\<close> (\<open>None\<close>) or the array of spots.
\<close>

type_synonym promise = "spot list option option"

definition resolve :: "promise \<Rightarrow> spot list option \<Rightarrow> promise" where
  "resolve p v = (case p of None \<Rightarrow> Some v | Some w \<Rightarrow> Some w)"

text \<open>
  How a session ends. Every way leads to \<^verbatim>\<open>client.destroy()\<close> or to the socket closing
  by itself, and then to the \<^verbatim>\<open>'close'\<close> event: the idle timeout of 15 s, a socket error
  (also a failed connect), the destroy scheduled 500 ms after the quota of 20 spots, the
  remote end closing, or the 20 s timer, which finds the socket readable or not.
\<close>

datatype end_cause = IdleTimeout | SocketError | QuotaDestroy | RemoteEnd | FallbackTimer bool

text \<open>The body of the 20 s timer.\<close>

definition fallback_timer :: "session \<Rightarrow> bool \<Rightarrow> promise \<Rightarrow> promise" where
  "fallback_timer st readable p =
     (if 0 < length (sess_spots st) then p
      else if readable then resolve p None
      else p)"

text \<open>The \<^verbatim>\<open>'close'\<close> handler, at the time \<open>now\<close> it reads from \<^verbatim>\<open>Date.now()\<close>.\<close>

definition on_close :: "session \<Rightarrow> int \<Rightarrow> dx_cache \<Rightarrow> promise \<Rightarrow> dx_cache \<times> promise" where
  "on_close st now cache p =
     (if 0 < length (sess_spots st)
      then (\<lparr>cache_spots = sess_spots st, cache_timestamp = now\<rparr>,
            resolve p (Some (sess_spots st)))
      else (cache, resolve p None))"

text \<open>
  What the cluster node does to one session: the chunks the socket delivers before it
  closes, how the session ends, and the time from the call to the \<^verbatim>\<open>'close'\<close> event.
\<close>

record dx_upstream =
  chunks :: "string list"
  ended :: end_cause
  duration :: nat

definition run_session :: "string list \<Rightarrow> session" where
  "run_session cs = foldl on_data new_session cs"

text \<open>
  \<^verbatim>\<open>fetchDXSpider\<close>, called at time \<open>now\<close>: the cached spots while they are fresh and not
  empty, otherwise one session. The result is the new cache and the promise the caller awaits.
\<close>

definition fetchDXSpider :: "dx_cache \<Rightarrow> int \<Rightarrow> dx_upstream \<Rightarrow> dx_cache \<times> promise" where
  "fetchDXSpider cache now up =
     (if now - cache_timestamp cache < DXSPIDER_CACHE_TTL \<and> 0 < length (cache_spots cache)
      then (cache, Some (Some (cache_spots cache)))
      else
        (let st = run_session (chunks up);
             p = (case ended up of
                    FallbackTimer readable \<Rightarrow> fallback_timer st readable None
                  | _ \<Rightarrow> None)
         in on_close st (now + int (duration up)) cache p))"

subsection \<open>The route \<^verbatim>\<open>/api/dxcluster/spots\<close>\<close>

text \<open>
  The world of one request: the time it arrives, what HamQTH does and how long it takes,
  and what the cluster node does.
\<close>

record world =
  arrival :: int
  hamqth_up :: http_outcome
  hamqth_ms :: nat
  dx_up :: dx_upstream

datatype fetcher = CallHamQTH | CallDXSpider

text \<open>
  The end of the handler: a response with its status and JSON body, an exception that
  leaves the \<^verbatim>\<open>async\<close> function, or an \<^verbatim>\<open>await\<close> that never returns.
\<close>

datatype handler_result = Responded nat "spot list" | Threw js_error | Pending

record run =
  result :: handler_result
  cache_after :: dx_cache
  calls :: "fetcher list"

text \<open>\<^verbatim>\<open>res.json(spots || [])\<close>: the status is the default 200.\<close>

definition respond :: "spot list option \<Rightarrow> handler_result" where
  "respond spots = Responded 200 (case spots of None \<Rightarrow> [] | Some xs \<Rightarrow> xs)"

text \<open>\<^verbatim>\<open>(req.query.source || 'auto').toLowerCase()\<close>, for a query value that is absent or a string.\<close>

definition source_of :: "string option \<Rightarrow> string" where
  "source_of q =
     toLowerCase (case q of None \<Rightarrow> ''auto'' | Some s \<Rightarrow> if s = [] then ''auto'' else s)"

text \<open>\<^verbatim>\<open>spots = await fetchHamQTH()\<close> followed by the response.\<close>

definition hamqth_then_respond :: "world \<Rightarrow> dx_cache \<Rightarrow> fetcher list \<Rightarrow> run" where
  "hamqth_then_respond w cache before =
     (case fetchHamQTH (hamqth_up w) of
        Inl err \<Rightarrow> \<lparr>result = Threw err, cache_after = cache, calls = before @ [CallHamQTH]\<rparr>
      | Inr spots \<Rightarrow>
          \<lparr>result = respond spots, cache_after = cache, calls = before @ [CallHamQTH]\<rparr>)"

text \<open>\<^verbatim>\<open>spots = await fetchDXSpider()\<close> at time \<open>now\<close>; \<open>on_null\<close> is what follows a \<^verbatim>\<open>null\<close>.\<close>

definition dxspider_then ::
  "world \<Rightarrow> dx_cache \<Rightarrow> int \<Rightarrow> fetcher list \<Rightarrow> (dx_cache \<Rightarrow> fetcher list \<Rightarrow> run) \<Rightarrow> run" where
  "dxspider_then w cache now before on_null =
     (case fetchDXSpider cache now (dx_up w) of
        (cache', None) \<Rightarrow>
          \<lparr>result = Pending, cache_after = cache', calls = before @ [CallDXSpider]\<rparr>
      | (cache', Some None) \<Rightarrow> on_null cache' (before @ [CallDXSpider])
      | (cache', Some (Some spots)) \<Rightarrow>
          \<lparr>result = respond (Some spots), cache_after = cache',
           calls = before @ [CallDXSpider]\<rparr>)"

definition spots_handler :: "string option \<Rightarrow> world \<Rightarrow> dx_cache \<Rightarrow> run" where
  "spots_handler q w cache =
     (let source' = source_of q in
      if source' = ''hamqth'' then hamqth_then_respond w cache []
      else if source' = ''dxspider'' then
        dxspider_then w cache (arrival w) []
          (\<lambda>cache' before. hamqth_then_respond w cache' before)
      else
        (case fetchHamQTH (hamqth_up w) of
           Inl err \<Rightarrow> \<lparr>result = Threw err, cache_after = cache, calls = [CallHamQTH]\<rparr>
         | Inr (Some spots) \<Rightarrow>
             \<lparr>result = respond (Some spots), cache_after = cache, calls = [CallHamQTH]\<rparr>
         | Inr None \<Rightarrow>
             dxspider_then w cache (arrival w + int (hamqth_ms w)) [CallHamQTH]
               (\<lambda>cache' before.
                  \<lparr>result = respond None, cache_after = cache', calls = before\<rparr>)))"

text \<open>
  The cache after a history of requests served one after the other: the route is the only
  writer of \<^verbatim>\<open>dxSpiderCache\<close>.
\<close>

definition after_requests :: "(string option \<times> world) list \<Rightarrow> dx_cache" where
  "after_requests reqs =
     foldl (\<lambda>cache (q, w). cache_after (spots_handler q w cache)) dxSpiderCache_init reqs"

subsection \<open>The caches of \<^verbatim>\<open>/api/dxpeditions\<close> and \<^verbatim>\<open>/api/satellites/tle\<close>\<close>

text \<open>
  Both routes keep \<^verbatim>\<open>{ data, timestamp }\<close> and read \<^verbatim>\<open>const now = Date.now()\<close> once, on
  entry. What they fetch and parse is not modelled: the payload is a parameter, and an
  attempt either throws inside the \<^verbatim>\<open>try\<close> block or completes with a payload after some
  milliseconds.
\<close>

record 'p data_cache =
  cdata :: "'p option"
  ctimestamp :: int

datatype 'p attempt = Throws | Completes 'p nat

datatype 'p reply = Json 'p | JsonStale 'p | JsonEmptyObject | Status500

text \<open>The time at which an attempt that started at \<open>now\<close> completes.\<close>

definition completion_time :: "int \<Rightarrow> 'p attempt \<Rightarrow> int" where
  "completion_time now att = (case att of Throws \<Rightarrow> now | Completes _ ms \<Rightarrow> now + int ms)"

definition dxpedition_maxAge :: int where
  "dxpedition_maxAge = 30 * 60 * 1000"

definition TLE_CACHE_DURATION :: int where
  "TLE_CACHE_DURATION = 6 * 60 * 60 * 1000"

text \<open>
  \<^verbatim>\<open>/api/dxpeditions\<close>: fresh data is returned as it is; a completed attempt is stored
  with \<^verbatim>\<open>dxpeditionCache.timestamp = now\<close>; the \<^verbatim>\<open>catch\<close> clause answers with the cached
  data and \<^verbatim>\<open>stale: true\<close>, or with status 500 when there is none.
\<close>

definition dxpeditions_handler ::
  "int \<Rightarrow> 'p attempt \<Rightarrow> 'p data_cache \<Rightarrow> 'p data_cache \<times> 'p reply" where
  "dxpeditions_handler now att cache =
     (case (if now - ctimestamp cache < dxpedition_maxAge then cdata cache else None) of
        Some d \<Rightarrow> (cache, Json d)
      | None \<Rightarrow>
          (case att of
             Completes res ms \<Rightarrow> (\<lparr>cdata = Some res, ctimestamp = now\<rparr>, Json res)
           | Throws \<Rightarrow>
               (case cdata cache of
                  Some d \<Rightarrow> (cache, JsonStale d)
                | None \<Rightarrow> (cache, Status500))))"

text \<open>
  \<^verbatim>\<open>/api/satellites/tle\<close>: the same shape, with \<^verbatim>\<open>tleCache = { data: tleData, timestamp: now }\<close>
  and \<^verbatim>\<open>res.json(tleCache.data || {})\<close> in the \<^verbatim>\<open>catch\<close> clause.
\<close>

definition tle_handler ::
  "int \<Rightarrow> 'p attempt \<Rightarrow> 'p data_cache \<Rightarrow> 'p data_cache \<times> 'p reply" where
  "tle_handler now att cache =
     (case (if now - ctimestamp cache < TLE_CACHE_DURATION then cdata cache else None) of
        Some d \<Rightarrow> (cache, Json d)
      | None \<Rightarrow>
          (case att of
             Completes tleData ms \<Rightarrow> (\<lparr>cdata = Some tleData, ctimestamp = now\<rparr>, Json tleData)
           | Throws \<Rightarrow>
               (case cdata cache of
                  Some d \<Rightarrow> (cache, Json d)
                | None \<Rightarrow> (cache, JsonEmptyObject))))"

subsection \<open>Prefix geolocation (\<^verbatim>\<open>estimateLocationFromPrefix\<close>)\<close>

record prefix_entry =
  lat :: rat
  lon :: rat
  country :: string

record location =
  loc_callsign :: string
  loc_lat :: rat
  loc_lon :: rat
  loc_country :: string
  estimated :: bool

definition mk_entry :: "rat \<Rightarrow> rat \<Rightarrow> string \<Rightarrow> prefix_entry" where
  "mk_entry la lo c = \<lparr>lat = la, lon = lo, country = c\<rparr>"

text \<open>The object literal \<^verbatim>\<open>prefixLocations\<close>, key by key in the order of the source.\<close>

definition prefixTable :: "(string \<times> prefix_entry) list" where
  "prefixTable =
    [(''K'', mk_entry 39.8 (-98.5) ''USA''),
     (''W'', mk_entry 39.8 (-98.5) ''USA''),
     (''N'', mk_entry 39.8 (-98.5) ''USA''),
     (''AA'', mk_entry 39.8 (-98.5) ''USA''),
     (''AB'', mk_entry 39.8 (-98.5) ''USA''),
     (''VE'', mk_entry 56.1 (-106.3) ''Canada''),
     (''VA'', mk_entry 56.1 (-106.3) ''Canada''),
     (''G'', mk_entry 52.4 (-1.5) ''England''),
     (''M'', mk_entry 52.4 (-1.5) ''England''),
     (''F'', mk_entry 46.2 2.2 ''France''),
     (''DL'', mk_entry 51.2 10.4 ''Germany''),
     (''DJ'', mk_entry 51.2 10.4 ''Germany''),
     (''DK'', mk_entry 51.2 10.4 ''Germany''),
     (''I'', mk_entry 41.9 12.6 ''Italy''),
     (''JA'', mk_entry 36.2 138.3 ''Japan''),
     (''JH'', mk_entry 36.2 138.3 ''Japan''),
     (''JR'', mk_entry 36.2 138.3 ''Japan''),
     (''VK'', mk_entry (-25.3) 133.8 ''Australia''),
     (''ZL'', mk_entry (-40.9) 174.9 ''New Zealand''),
     (''ZS'', mk_entry (-30.6) 22.9 ''South Africa''),
     (''LU'', mk_entry (-38.4) (-63.6) ''Argentina''),
     (''PY'', mk_entry (-14.2) (-51.9) ''Brazil''),
     (''EA'', mk_entry 40.5 (-3.7) ''Spain''),
     (''CT'', mk_entry 39.4 (-8.2) ''Portugal''),
     (''PA'', mk_entry 52.1 5.3 ''Netherlands''),
     (''ON'', mk_entry 50.5 4.5 ''Belgium''),
     (''OZ'', mk_entry 56.3 9.5 ''Denmark''),
     (''SM'', mk_entry 60.1 18.6 ''Sweden''),
     (''LA'', mk_entry 60.5 8.5 ''Norway''),
     (''OH'', mk_entry 61.9 25.7 ''Finland''),
     (''UA'', mk_entry 61.5 105.3 ''Russia''),
     (''RU'', mk_entry 61.5 105.3 ''Russia''),
     (''RA'', mk_entry 61.5 105.3 ''Russia''),
     (''BY'', mk_entry 35.9 104.2 ''China''),
     (''BV'', mk_entry 23.7 121.0 ''Taiwan''),
     (''HL'', mk_entry 35.9 127.8 ''South Korea''),
     (''VU'', mk_entry 20.6 79.0 ''India''),
     (''HS'', mk_entry 15.9 100.9 ''Thailand''),
     (''DU'', mk_entry 12.9 121.8 ''Philippines''),
     (''YB'', mk_entry (-0.8) 113.9 ''Indonesia''),
     (''9V'', mk_entry 1.4 103.8 ''Singapore''),
     (''9M'', mk_entry 4.2 101.9 ''Malaysia'')]"

definition prefixLocations :: "string \<Rightarrow> prefix_entry option" where
  "prefixLocations = map_of prefixTable"

text \<open>\<^verbatim>\<open>{ callsign, ...prefixLocations[p], estimated: true }\<close>\<close>

definition spread_entry :: "string \<Rightarrow> prefix_entry \<Rightarrow> location" where
  "spread_entry callsign e =
     \<lparr>loc_callsign = callsign, loc_lat = lat e, loc_lon = lon e,
      loc_country = country e, estimated = True\<rparr>"

text \<open>
  \<^verbatim>\<open>substring(0, n)\<close> of a string shorter than \<open>n\<close> is the whole string, as \<^const>\<open>take\<close>.
  The two-character prefix is tried first, then the one-character prefix; \<^verbatim>\<open>null\<close> is
  \<^const>\<open>None\<close>.
\<close>

definition estimateLocationFromPrefix :: "string \<Rightarrow> location option" where
  "estimateLocationFromPrefix callsign =
     (let prefix2 = take 2 callsign; prefix1 = take 1 callsign in
      case prefixLocations prefix2 of
        Some e2 \<Rightarrow> Some (spread_entry callsign e2)
      | None \<Rightarrow>
          (case prefixLocations prefix1 of
             Some e1 \<Rightarrow> Some (spread_entry callsign e1)
           | None \<Rightarrow> None))"

subsection \<open>The route \<^verbatim>\<open>/api/dxcluster/paths\<close>\<close>

text \<open>
  The spots this route parses for itself (spotter and DX call trimmed and upper-cased, both
  non-empty), the entries of \<^verbatim>\<open>locations\<close> and the paths it returns. The parse of the
  response body and the five-minute filter, which reads the clock and the \<^verbatim>\<open>Date\<close>
  parser, are not modelled: the route is modelled from the array \<^verbatim>\<open>spots\<close> on.
\<close>

record path_spot =
  ps_spotter :: string
  ps_dxCall :: string
  ps_freq :: string
  ps_comment :: string
  ps_time :: string

record place =
  place_lat :: rat
  place_lon :: rat
  place_country :: string

record path =
  path_spotter :: string
  spotterLat :: rat
  spotterLon :: rat
  spotterCountry :: string
  path_dxCall :: string
  dxLat :: rat
  dxLon :: rat
  dxCountry :: string
  path_freq :: string
  path_comment :: string
  path_time :: string

text \<open>\<^verbatim>\<open>allCalls\<close>: a \<^verbatim>\<open>Set\<close>, iterated in insertion order.\<close>

definition set_add :: "string list \<Rightarrow> string \<Rightarrow> string list" where
  "set_add cs c = (if c \<in> set cs then cs else cs @ [c])"

definition all_calls :: "path_spot list \<Rightarrow> string list" where
  "all_calls spots = foldl (\<lambda>acc s. set_add (set_add acc (ps_spotter s)) (ps_dxCall s)) [] spots"

text \<open>\<^verbatim>\<open>[...allCalls].slice(0, 40)\<close> and the loop that fills \<^verbatim>\<open>locations\<close>.\<close>

definition calls_to_lookup :: "path_spot list \<Rightarrow> string list" where
  "calls_to_lookup spots = take 40 (all_calls spots)"

definition add_location :: "(string \<rightharpoonup> place) \<Rightarrow> string \<Rightarrow> (string \<rightharpoonup> place)" where
  "add_location locs c =
     (case estimateLocationFromPrefix c of
        Some loc \<Rightarrow>
          locs(c \<mapsto> \<lparr>place_lat = loc_lat loc, place_lon = loc_lon loc,
                      place_country = loc_country loc\<rparr>)
      | None \<Rightarrow> locs)"

definition locations_of :: "path_spot list \<Rightarrow> (string \<rightharpoonup> place)" where
  "locations_of spots = foldl add_location Map.empty (calls_to_lookup spots)"

text \<open>The \<^verbatim>\<open>map\<close> callback: a path when both locations are there, \<^verbatim>\<open>null\<close> otherwise.\<close>

definition build_path :: "(string \<rightharpoonup> place) \<Rightarrow> path_spot \<Rightarrow> path option" where
  "build_path locations s =
     (case locations (ps_spotter s) of
        None \<Rightarrow> None
      | Some spotterLoc \<Rightarrow>
          (case locations (ps_dxCall s) of
             None \<Rightarrow> None
           | Some dxLoc \<Rightarrow>
               Some \<lparr>path_spotter = ps_spotter s,
                     spotterLat = place_lat spotterLoc,
                     spotterLon = place_lon spotterLoc,
                     spotterCountry = place_country spotterLoc,
                     path_dxCall = ps_dxCall s,
                     dxLat = place_lat dxLoc,
                     dxLon = place_lon dxLoc,
                     dxCountry = place_country dxLoc,
                     path_freq = ps_freq s,
                     path_comment = ps_comment s,
                     path_time = ps_time s\<rparr>))"

text \<open>\<^verbatim>\<open>.filter(p => p !== null)\<close>\<close>

primrec drop_nulls :: "'a option list \<Rightarrow> 'a list" where
  "drop_nulls [] = []"
| "drop_nulls (x # xs) = (case x of None \<Rightarrow> drop_nulls xs | Some y \<Rightarrow> y # drop_nulls xs)"

definition compose_paths :: "path_spot list \<Rightarrow> path list" where
  "compose_paths spots =
     (let locations = locations_of spots
      in take 25 (drop_nulls (map (build_path locations) spots)))"

text \<open>
  The route with its cache \<^verbatim>\<open>dxSpotPathsCache\<close> (30 s): \<open>now\<close> is the reading of
  \<^verbatim>\<open>Date.now()\<close> on entry; the upstream rejects, answers with a status that is not ok, or
  delivers a body from which the parse builds \<open>spots\<close> after some milliseconds.
\<close>

record paths_cache =
  pc_paths :: "path list"
  pc_timestamp :: int

definition dxSpotPathsCache_init :: paths_cache where
  "dxSpotPathsCache_init = \<lparr>pc_paths = [], pc_timestamp = 0\<rparr>"

definition DXPATHS_CACHE_TTL :: int where
  "DXPATHS_CACHE_TTL = 30000"

datatype paths_upstream = PathsRejects | PathsNotOk | PathsSpots "path_spot list" nat

definition paths_handler :: "int \<Rightarrow> paths_upstream \<Rightarrow> paths_cache \<Rightarrow> paths_cache \<times> path list" where
  "paths_handler now up cache =
     (if now - pc_timestamp cache < DXPATHS_CACHE_TTL \<and> 0 < length (pc_paths cache)
      then (cache, pc_paths cache)
      else
        (case up of
           PathsRejects \<Rightarrow> (cache, [])
         | PathsNotOk \<Rightarrow> (cache, [])
         | PathsSpots spots ms \<Rightarrow>
             (let paths = compose_paths spots
              in (\<lparr>pc_paths = paths, pc_timestamp = now + int ms\<rparr>, paths))))"


subsection \<open>Predicates of the specification\<close>





text \<open>All spots of a list carry the provenance tag of the DX Spider source.\<close>

definition all_tagged :: "spot list \<Rightarrow> bool" where
  "all_tagged spots = list_all (\<lambda>s. source s = DXSpider) spots"




subsection \<open>Worked examples\<close>

text \<open>Concrete inputs on which the theorems below are evaluated.\<close>

definition ex_line_a :: string where
  "ex_line_a = ''DX de W3LPL:     14195.0  TI5/AA8HH    FT8 -09 dB           1234Z''"


definition ex_spot_a :: spot where
  "ex_spot_a =
     \<lparr>freq = ''14.195'', call = ''TI5/AA8HH'', comment = ''FT8 -09 dB'', time = ''12:34z'',
      spotter = ''W3LPL'', source = DXSpider\<rparr>"


definition ex_session_ok :: dx_upstream where
  "ex_session_ok =
     \<lparr>chunks = [''login: '', ''Hello GUEST de G6NHU-2>'', ex_line_a @ crlf],
      ended = RemoteEnd, duration = 3000\<rparr>"


definition ex_csv :: string where
  "ex_csv =
     ''KF0NYM^18070.0^TX5U^Good Sig^2149 2025-05-27^^^EU^17M^France^227'' @ [CHR 0x0A] @
     ''W3LPL^14195.0^TI5/AA8HH^FT8^2150 2025-05-27^^^NA^20M^Costa Rica^308''"

definition ex_csv_spots :: "spot list" where
  "ex_csv_spots =
     [\<lparr>freq = ''18.070'', call = ''TX5U'', comment = ''Good Sig'', time = ''21:49z'',
       spotter = ''KF0NYM'', source = HamQTH\<rparr>,
      \<lparr>freq = ''14.195'', call = ''TI5/AA8HH'', comment = ''FT8'', time = ''21:50z'',
       spotter = ''W3LPL'', source = HamQTH\<rparr>]"


definition ex_world_fallback :: world where
  "ex_world_fallback =
     \<lparr>arrival = 1000000, hamqth_up = FetchRejects AbortError, hamqth_ms = 10000,
      dx_up = ex_session_ok\<rparr>"

definition ex_world_http :: world where
  "ex_world_http =
     \<lparr>arrival = 1000000, hamqth_up = Response True (Body ex_csv), hamqth_ms = 200,
      dx_up = ex_session_ok\<rparr>"

text \<open>A cache filled 200 s before the arrival time of the worlds above.\<close>

definition ex_stale_cache :: dx_cache where
  "ex_stale_cache = \<lparr>cache_spots = [ex_spot_a], cache_timestamp = 800000\<rparr>"



definition ex_empty_data_cache :: "string data_cache" where
  "ex_empty_data_cache = \<lparr>cdata = None, ctimestamp = 0\<rparr>"






section \<open>Verified properties\<close>

subsection \<open>The HamQTH fetcher\<close>

lemma split_on_not_Nil: "split_on c s \<noteq> []"
  by (induction s) (auto split: list.splits)

lemma split_on_Cons_sep: "split_on c (c # s) = [] # split_on c s"
  by simp

lemma split_on_Cons_other: "x \<noteq> c \<Longrightarrow> split_on c (x # s) = (x # hd (split_on c s)) # tl (split_on c s)"
  using split_on_not_Nil[of c s] by (cases "split_on c s") auto
















text \<open>
  Claim C6. Frequency normalisation in the HamQTH parse: a kHz field \<^verbatim>\<open>14074.0\<close> gives
  \<open>freq = "14.074"\<close> (divided by 1000 and rendered with three decimals); a kHz field
  \<^verbatim>\<open>145.500\<close> is not above the threshold 1000 and is passed through unscaled, as
  \<^verbatim>\<open>String(145.5)\<close>.
\<close>

theorem hamqth_frequency_normalization:
  assumes "parts = split_on CHR ''^'' line" and "1 < length parts"
  shows "(parts ! 1 = ''14074.0'' \<longrightarrow> freq (hamqth_spot line) = ''14.074'')
       \<and> (parts ! 1 = ''145.500'' \<longrightarrow>
            \<not> js_gt (parseFloat ''145.500'') 1000 \<and>
            freq (hamqth_spot line) = numToString (parseFloat ''145.500'') \<and>
            freq (hamqth_spot line) = ''145.5'')"
proof -
  have a: "toFixed3 (div1000 (or_zero (parseFloat ''14074.0''))) = ''14.074''"
    by code_simp
  have a': "js_gt (or_zero (parseFloat ''14074.0'')) 1000"
    by code_simp
  have b: "numToString (or_zero (parseFloat ''145.500'')) = ''145.5''"
    by code_simp
  have b': "\<not> js_gt (or_zero (parseFloat ''145.500'')) 1000"
    by code_simp
  have c: "or_zero (parseFloat ''145.500'') = parseFloat ''145.500''"
    by code_simp
  from assms a a' b b' c show ?thesis
    by (auto simp: hamqth_spot_def Let_def parseFloat_at_def)
qed

theorem hamqth_frequency_normalization_witness:
  "1 < length (split_on CHR ''^'' ''KF0NYM^14074.0^TX5U^Good Sig^2149 2025-05-27^^^EU^20M^France^227'')
   \<and> split_on CHR ''^'' ''KF0NYM^14074.0^TX5U^Good Sig^2149 2025-05-27^^^EU^20M^France^227'' ! 1 = ''14074.0''
   \<and> freq (hamqth_spot ''KF0NYM^14074.0^TX5U^Good Sig^2149 2025-05-27^^^EU^20M^France^227'') = ''14.074''
   \<and> 1 < length (split_on CHR ''^'' ''W1AW^145.500^K1ABC^FM^2149 2025-05-27^^^NA^2M^USA^291'')
   \<and> split_on CHR ''^'' ''W1AW^145.500^K1ABC^FM^2149 2025-05-27^^^NA^2M^USA^291'' ! 1 = ''145.500''
   \<and> freq (hamqth_spot ''W1AW^145.500^K1ABC^FM^2149 2025-05-27^^^NA^2M^USA^291'') = ''145.5''"
proof -
  have l1: "1 < length (split_on CHR ''^'' ''KF0NYM^14074.0^TX5U^Good Sig^2149 2025-05-27^^^EU^20M^France^227'')"
    by simp
  have p1: "split_on CHR ''^'' ''KF0NYM^14074.0^TX5U^Good Sig^2149 2025-05-27^^^EU^20M^France^227'' ! 1 = ''14074.0''"
    by simp
  have l2: "1 < length (split_on CHR ''^'' ''W1AW^145.500^K1ABC^FM^2149 2025-05-27^^^NA^2M^USA^291'')"
    by simp
  have p2: "split_on CHR ''^'' ''W1AW^145.500^K1ABC^FM^2149 2025-05-27^^^NA^2M^USA^291'' ! 1 = ''145.500''"
    by simp
  from hamqth_frequency_normalization[OF refl l1] p1
  have r1: "freq (hamqth_spot ''KF0NYM^14074.0^TX5U^Good Sig^2149 2025-05-27^^^EU^20M^France^227'') = ''14.074''"
    by blast
  from hamqth_frequency_normalization[OF refl l2] p2
  have r2: "freq (hamqth_spot ''W1AW^145.500^K1ABC^FM^2149 2025-05-27^^^NA^2M^USA^291'') = ''145.5''"
    by blast
  from l1 p1 r1 l2 p2 r2 show ?thesis by blast
qed


subsection \<open>The route \<^verbatim>\<open>/api/dxcluster/spots\<close>\<close>

lemma fetchHamQTH_Inr:
  "fetchHamQTH up = Inr (case hamqth_try up of Inr (Some spots) \<Rightarrow> Some spots | _ \<Rightarrow> None)"
  by (simp add: fetchHamQTH_def split: sum.splits option.splits)

lemma resolve_Some: "\<exists>v. resolve p x = Some v"
  by (cases p) (simp_all add: resolve_def)

lemma on_close_resolves: "\<exists>c v. on_close st now cache p = (c, Some v)"
  using resolve_Some by (simp add: on_close_def)

lemma fetchDXSpider_resolves: "\<exists>c v. fetchDXSpider cache now up = (c, Some v)"
  using on_close_resolves by (simp add: fetchDXSpider_def Let_def)




lemma fetchDXSpider_no_spots:
  assumes "\<not> (now - cache_timestamp cache < DXSPIDER_CACHE_TTL \<and> 0 < length (cache_spots cache))"
    and "sess_spots (run_session (chunks up)) = []"
  shows "fetchDXSpider cache now up = (cache, Some None)"
  using assms
  by (auto simp: fetchDXSpider_def Let_def on_close_def fallback_timer_def resolve_def
      split: end_cause.splits)

lemma dx_spot_source: "dx_spot line = Some s \<Longrightarrow> source s = DXSpider"
  by (auto simp: dx_spot_def Let_def split: if_splits option.splits prod.splits)

lemma dx_line_tagged: "all_tagged spots \<Longrightarrow> all_tagged (dx_line spots line)"
  by (auto simp: dx_line_def all_tagged_def dx_spot_source split: option.splits)

lemma foldl_dx_line_tagged: "all_tagged spots \<Longrightarrow> all_tagged (foldl dx_line spots ls)"
  by (induction ls arbitrary: spots) (simp_all add: dx_line_tagged)

lemma on_data_tagged: "all_tagged (sess_spots st) \<Longrightarrow> all_tagged (sess_spots (on_data st chunk))"
  by (simp add: on_data_def Let_def parse_buffer_def foldl_dx_line_tagged)

lemma foldl_on_data_tagged:
  "all_tagged (sess_spots st) \<Longrightarrow> all_tagged (sess_spots (foldl on_data st cs))"
  by (induction cs arbitrary: st) (simp_all add: on_data_tagged)

lemma run_session_tagged: "all_tagged (sess_spots (run_session cs))"
  unfolding run_session_def
  by (rule foldl_on_data_tagged) (simp add: new_session_def all_tagged_def)

lemma fetchDXSpider_tagged:
  assumes "all_tagged (cache_spots cache)"
    and "fetchDXSpider cache now up = (cache', p)"
  shows "all_tagged (cache_spots cache') \<and> (\<forall>spots. p = Some (Some spots) \<longrightarrow> all_tagged spots)"
proof (cases "now - cache_timestamp cache < DXSPIDER_CACHE_TTL \<and> 0 < length (cache_spots cache)")
  case True
  with assms show ?thesis by (auto simp: fetchDXSpider_def)
next
  case False
  let ?st = "run_session (chunks up)"
  have t: "all_tagged (sess_spots ?st)" by (rule run_session_tagged)
  show ?thesis
  proof (cases "sess_spots ?st = []")
    case True
    with False have "fetchDXSpider cache now up = (cache, Some None)"
      by (intro fetchDXSpider_no_spots) simp_all
    with assms show ?thesis by auto
  next
    case ne: False
    with False assms t show ?thesis
      by (auto simp: fetchDXSpider_def Let_def on_close_def fallback_timer_def resolve_def
          split: end_cause.splits if_splits)
  qed
qed

lemma hamqth_then_respond_cache: "cache_after (hamqth_then_respond w cache before) = cache"
  by (simp add: hamqth_then_respond_def split: sum.splits)

lemma dxspider_then_cache:
  assumes "\<And>c b. cache_after (on_null c b) = c"
  shows "cache_after (dxspider_then w cache now before on_null)
         = fst (fetchDXSpider cache now (dx_up w))"
  using assms
  by (auto simp: dxspider_then_def split: prod.splits option.splits)

lemma spots_handler_cache_tagged:
  assumes "all_tagged (cache_spots cache)"
  shows "all_tagged (cache_spots (cache_after (spots_handler q w cache)))"
proof -
  have f: "all_tagged (cache_spots (fst (fetchDXSpider cache t (dx_up w))))" for t
    using fetchDXSpider_tagged[OF assms, of t "dx_up w"]
    by (cases "fetchDXSpider cache t (dx_up w)") auto
  show ?thesis
    using assms f
    by (auto simp: spots_handler_def Let_def hamqth_then_respond_cache dxspider_then_cache
        split: sum.splits option.splits)
qed

lemma foldl_handler_tagged:
  "all_tagged (cache_spots c) \<Longrightarrow>
   all_tagged (cache_spots (foldl (\<lambda>cache (q, w). cache_after (spots_handler q w cache)) c reqs))"
  by (induction reqs arbitrary: c) (auto simp: spots_handler_cache_tagged)

lemma after_requests_tagged: "all_tagged (cache_spots (after_requests reqs))"
  unfolding after_requests_def
  by (rule foldl_handler_tagged) (simp add: dxSpiderCache_init_def all_tagged_def)

lemma dxspider_then_calls:
  assumes "\<And>c b. calls (on_null c b) = b"
  shows "calls (dxspider_then w cache now before on_null) = before @ [CallDXSpider]"
  using assms by (auto simp: dxspider_then_def split: prod.splits option.splits)

text \<open>
  Claim C2. Under the preference \<^verbatim>\<open>auto\<close> (any preference but \<^verbatim>\<open>hamqth\<close> and
  \<^verbatim>\<open>dxspider\<close>), on the cache left by any history of requests, the route calls
  \<^verbatim>\<open>fetchHamQTH\<close> first and calls \<^verbatim>\<open>fetchDXSpider\<close> if and only if HamQTH yielded no spots
  (\<^verbatim>\<open>null\<close>). When HamQTH yields spots they are the response; otherwise the response is
  what \<^verbatim>\<open>fetchDXSpider\<close> resolves with, and every spot of it carries the tag of the
  DX Spider source.
\<close>

theorem auto_fallback_order:
  assumes "source_of q \<noteq> ''hamqth''" and "source_of q \<noteq> ''dxspider''"
  shows "calls (spots_handler q w (after_requests reqs))
           = (if fetchHamQTH (hamqth_up w) = Inr None then [CallHamQTH, CallDXSpider]
              else [CallHamQTH])
       \<and> (\<forall>spots. fetchHamQTH (hamqth_up w) = Inr (Some spots) \<longrightarrow>
            result (spots_handler q w (after_requests reqs)) = Responded 200 spots)
       \<and> (fetchHamQTH (hamqth_up w) = Inr None \<longrightarrow>
            (\<exists>spots. result (spots_handler q w (after_requests reqs)) = Responded 200 spots
               \<and> snd (fetchDXSpider (after_requests reqs) (arrival w + int (hamqth_ms w)) (dx_up w))
                   = Some (if spots = [] then None else Some spots)
               \<and> (\<forall>s \<in> set spots. source s = DXSpider)))"
proof -
  let ?c = "after_requests reqs"
  let ?t = "arrival w + int (hamqth_ms w)"
  have calls: "calls (spots_handler q w ?c)
           = (if fetchHamQTH (hamqth_up w) = Inr None then [CallHamQTH, CallDXSpider]
              else [CallHamQTH])"
    using assms
    by (auto simp: spots_handler_def Let_def dxspider_then_calls fetchHamQTH_Inr
        split: sum.splits option.splits)
  have some: "result (spots_handler q w ?c) = Responded 200 spots"
    if "fetchHamQTH (hamqth_up w) = Inr (Some spots)" for spots
    using assms that by (simp add: spots_handler_def Let_def respond_def)
  have none: "\<exists>spots. result (spots_handler q w ?c) = Responded 200 spots
               \<and> snd (fetchDXSpider ?c ?t (dx_up w)) = Some (if spots = [] then None else Some spots)
               \<and> (\<forall>s \<in> set spots. source s = DXSpider)"
    if h: "fetchHamQTH (hamqth_up w) = Inr None"
  proof -
    obtain c' v where f: "fetchDXSpider ?c ?t (dx_up w) = (c', Some v)"
      using fetchDXSpider_resolves by blast
    have r: "result (spots_handler q w ?c) = respond v"
      using assms h f
      by (cases v) (simp_all add: spots_handler_def Let_def dxspider_then_def respond_def)
    show ?thesis
    proof (cases v)
      case None
      with r f show ?thesis by (simp add: respond_def)
    next
      case (Some spots)
      from fetchDXSpider_tagged[OF after_requests_tagged f] Some
      have tg: "all_tagged spots" by simp
      have ne: "spots \<noteq> []"
      proof
        assume e: "spots = []"
        from f Some e show False
          by (auto simp: fetchDXSpider_def Let_def on_close_def resolve_def fallback_timer_def
              split: if_splits end_cause.splits)
      qed
      from r f Some tg ne show ?thesis
        by (simp add: respond_def all_tagged_def list_all_iff)
    qed
  qed
  from calls some none show ?thesis by blast
qed

theorem auto_fallback_order_witness:
  "source_of (Some ''auto'') \<noteq> ''hamqth'' \<and> source_of (Some ''auto'') \<noteq> ''dxspider''
   \<and> fetchHamQTH (hamqth_up ex_world_fallback) = Inr None
   \<and> calls (spots_handler (Some ''auto'') ex_world_fallback (after_requests []))
       = [CallHamQTH, CallDXSpider]
   \<and> result (spots_handler (Some ''auto'') ex_world_fallback (after_requests []))
       = Responded 200 [ex_spot_a]
   \<and> source ex_spot_a = DXSpider
   \<and> fetchHamQTH (hamqth_up ex_world_http) = Inr (Some ex_csv_spots)
   \<and> calls (spots_handler (Some ''auto'') ex_world_http (after_requests [])) = [CallHamQTH]
   \<and> result (spots_handler (Some ''auto'') ex_world_http (after_requests []))
       = Responded 200 ex_csv_spots"
proof -
  have h1: "source_of (Some ''auto'') \<noteq> ''hamqth''" by code_simp
  have h2: "source_of (Some ''auto'') \<noteq> ''dxspider''" by code_simp
  have f: "fetchHamQTH (hamqth_up ex_world_fallback) = Inr None" by code_simp
  have g: "fetchHamQTH (hamqth_up ex_world_http) = Inr (Some ex_csv_spots)" by code_simp
  have r: "result (spots_handler (Some ''auto'') ex_world_fallback (after_requests []))
       = Responded 200 [ex_spot_a]" by code_simp
  note A = auto_fallback_order[OF h1 h2, of ex_world_fallback "[]"]
  note B = auto_fallback_order[OF h1 h2, of ex_world_http "[]"]
  from A f have a1: "calls (spots_handler (Some ''auto'') ex_world_fallback (after_requests []))
       = [CallHamQTH, CallDXSpider]"
    by (simp only: simp_thms if_True)
  from A f r have a2: "source ex_spot_a = DXSpider"
    by auto
  from B g have b1: "calls (spots_handler (Some ''auto'') ex_world_http (after_requests [])) = [CallHamQTH]"
    by (simp only: sum.inject option.distinct simp_thms if_False)
  from B g have b2: "result (spots_handler (Some ''auto'') ex_world_http (after_requests []))
       = Responded 200 ex_csv_spots"
    by blast
  from h1 h2 f a1 r a2 g b1 b2 show ?thesis by (intro conjI)
qed






subsection \<open>The caches\<close>




text \<open>
  Claim C4, as the code has it. \<^verbatim>\<open>dxSpiderCache\<close> and \<^verbatim>\<open>dxSpotPathsCache\<close> are stamped
  with a reading of \<^verbatim>\<open>Date.now()\<close> taken when the refresh completes (in the
  \<^verbatim>\<open>'close'\<close> handler, and after the paths are built). \<^verbatim>\<open>dxpeditionCache\<close> and
  \<^verbatim>\<open>tleCache\<close> are stamped with \<^verbatim>\<open>now\<close>, read on entry to the request before the upstream
  fetch, however long the fetch takes.
\<close>

theorem cache_timestamps:
  "(\<not> (now - cache_timestamp cache < DXSPIDER_CACHE_TTL \<and> 0 < length (cache_spots cache))
      \<and> sess_spots (run_session (chunks up)) \<noteq> [] \<longrightarrow>
     cache_timestamp (fst (fetchDXSpider cache now up)) = now + int (duration up))
   \<and> (\<not> (now - pc_timestamp pc < DXPATHS_CACHE_TTL \<and> 0 < length (pc_paths pc)) \<longrightarrow>
     pc_timestamp (fst (paths_handler now (PathsSpots spots ms) pc)) = now + int ms)
   \<and> (\<not> (now - ctimestamp c < dxpedition_maxAge \<and> cdata c \<noteq> None) \<longrightarrow>
     fst (dxpeditions_handler now (Completes res ms) c) = \<lparr>cdata = Some res, ctimestamp = now\<rparr>)
   \<and> (\<not> (now - ctimestamp c < TLE_CACHE_DURATION \<and> cdata c \<noteq> None) \<longrightarrow>
     fst (tle_handler now (Completes res ms) c) = \<lparr>cdata = Some res, ctimestamp = now\<rparr>)"
  by (auto simp: fetchDXSpider_def Let_def on_close_def paths_handler_def
      dxpeditions_handler_def tle_handler_def split: option.splits)

theorem cache_timestamps_witness:
  "\<not> (1000000 - cache_timestamp ex_stale_cache < DXSPIDER_CACHE_TTL
        \<and> 0 < length (cache_spots ex_stale_cache))
   \<and> sess_spots (run_session (chunks ex_session_ok)) \<noteq> []
   \<and> cache_timestamp (fst (fetchDXSpider ex_stale_cache 1000000 ex_session_ok)) = 1003000
   \<and> \<not> (1000000 - pc_timestamp dxSpotPathsCache_init < DXPATHS_CACHE_TTL
          \<and> 0 < length (pc_paths dxSpotPathsCache_init))
   \<and> pc_timestamp (fst (paths_handler 1000000 (PathsSpots [] 700) dxSpotPathsCache_init)) = 1000700
   \<and> \<not> (1000000 - ctimestamp ex_empty_data_cache < dxpedition_maxAge
          \<and> cdata ex_empty_data_cache \<noteq> None)
   \<and> fst (dxpeditions_handler 1000000 (Completes ''fetched'' 5000) ex_empty_data_cache)
       = \<lparr>cdata = Some ''fetched'', ctimestamp = 1000000\<rparr>
   \<and> \<not> (1000000 - ctimestamp ex_empty_data_cache < TLE_CACHE_DURATION
          \<and> cdata ex_empty_data_cache \<noteq> None)
   \<and> fst (tle_handler 1000000 (Completes ''fetched'' 5000) ex_empty_data_cache)
       = \<lparr>cdata = Some ''fetched'', ctimestamp = 1000000\<rparr>"
proof -
  have a: "\<not> (1000000 - cache_timestamp ex_stale_cache < DXSPIDER_CACHE_TTL
        \<and> 0 < length (cache_spots ex_stale_cache))"
    by code_simp
  have b: "sess_spots (run_session (chunks ex_session_ok)) \<noteq> []"
    by code_simp
  have c: "\<not> (1000000 - pc_timestamp dxSpotPathsCache_init < DXPATHS_CACHE_TTL
          \<and> 0 < length (pc_paths dxSpotPathsCache_init))"
    by code_simp
  have d: "\<not> (1000000 - ctimestamp ex_empty_data_cache < dxpedition_maxAge
          \<and> cdata ex_empty_data_cache \<noteq> None)"
    by code_simp
  have e: "\<not> (1000000 - ctimestamp ex_empty_data_cache < TLE_CACHE_DURATION
          \<and> cdata ex_empty_data_cache \<noteq> None)"
    by code_simp
  have u: "duration ex_session_ok = 3000"
    by (simp add: ex_session_ok_def)
  note T = cache_timestamps
    [of 1000000 ex_stale_cache ex_session_ok dxSpotPathsCache_init "[]" 700
        ex_empty_data_cache "''fetched''"]
  note T' = cache_timestamps
    [of 1000000 ex_stale_cache ex_session_ok dxSpotPathsCache_init "[]" 5000
        ex_empty_data_cache "''fetched''"]
  from T a b u have r1: "cache_timestamp (fst (fetchDXSpider ex_stale_cache 1000000 ex_session_ok)) = 1003000"
    by simp
  from T c have r2: "pc_timestamp (fst (paths_handler 1000000 (PathsSpots [] 700) dxSpotPathsCache_init)) = 1000700"
    by simp
  from T' d have r3: "fst (dxpeditions_handler 1000000 (Completes ''fetched'' 5000) ex_empty_data_cache)
       = \<lparr>cdata = Some ''fetched'', ctimestamp = 1000000\<rparr>"
    by blast
  from T' e have r4: "fst (tle_handler 1000000 (Completes ''fetched'' 5000) ex_empty_data_cache)
       = \<lparr>cdata = Some ''fetched'', ctimestamp = 1000000\<rparr>"
    by blast
  from a b r1 c r2 d r3 e r4 show ?thesis by (intro conjI)
qed

text \<open>
  An attempt that starts at 1000000 and completes 5000 ms later is stored by both routes
  with the timestamp 1000000.
\<close>

theorem request_start_timestamp_stored:
  "completion_time 1000000 (Completes ''fetched'' 5000) = 1005000
   \<and> ctimestamp (fst (dxpeditions_handler 1000000 (Completes ''fetched'' 5000) ex_empty_data_cache))
       = 1000000
   \<and> ctimestamp (fst (tle_handler 1000000 (Completes ''fetched'' 5000) ex_empty_data_cache))
       = 1000000"
  by code_simp

subsection \<open>The DX Spider parser\<close>

lemma dx_line_prefix: "\<exists>ys. dx_line spots line = spots @ ys"
  by (auto simp: dx_line_def split: option.splits)









subsection \<open>The paths route\<close>





















subsection \<open>Rendering of numbers\<close>















subsection \<open>What a match of the pattern captures\<close>


















subsection \<open>The fields of a spot\<close>







subsection \<open>Prefix geolocation\<close>

text \<open>
  Claim C10. The prefix lookup is a total function of the callsign: when the first two
  characters are a key of the table, that entry is returned, whatever the first character
  alone would give; otherwise, when the first character is a key, that entry is returned;
  otherwise the result is null. Every non-null result carries the queried callsign and
  \<open>estimated = true\<close>.
\<close>

theorem estimateLocationFromPrefix_spec:
  "(prefixLocations (take 2 cs) = Some e \<longrightarrow>
      estimateLocationFromPrefix cs = Some (spread_entry cs e))
   \<and> (prefixLocations (take 2 cs) = None \<and> prefixLocations (take 1 cs) = Some e \<longrightarrow>
      estimateLocationFromPrefix cs = Some (spread_entry cs e))
   \<and> (prefixLocations (take 2 cs) = None \<and> prefixLocations (take 1 cs) = None \<longrightarrow>
      estimateLocationFromPrefix cs = None)
   \<and> (estimateLocationFromPrefix cs = Some r \<longrightarrow>
      loc_callsign r = cs \<and> estimated r \<and>
      (\<exists>p e'. (p = take 2 cs \<or> p = take 1 cs) \<and> prefixLocations p = Some e' \<and>
         loc_lat r = lat e' \<and> loc_lon r = lon e' \<and> loc_country r = country e'))"
  by (auto simp: estimateLocationFromPrefix_def spread_entry_def Let_def split: option.splits)

theorem estimateLocationFromPrefix_spec_witness:
  "prefixLocations (take 2 ''DL1ABC'') = Some (mk_entry 51.2 10.4 ''Germany'')
   \<and> estimateLocationFromPrefix ''DL1ABC''
       = Some (spread_entry ''DL1ABC'' (mk_entry 51.2 10.4 ''Germany''))
   \<and> prefixLocations (take 2 ''K1ABC'') = None
   \<and> prefixLocations (take 1 ''K1ABC'') = Some (mk_entry 39.8 (-98.5) ''USA'')
   \<and> estimateLocationFromPrefix ''K1ABC''
       = Some (spread_entry ''K1ABC'' (mk_entry 39.8 (-98.5) ''USA''))
   \<and> prefixLocations (take 2 ''XX1YY'') = None
   \<and> prefixLocations (take 1 ''XX1YY'') = None
   \<and> estimateLocationFromPrefix ''XX1YY'' = None
   \<and> loc_callsign (spread_entry ''DL1ABC'' (mk_entry 51.2 10.4 ''Germany'')) = ''DL1ABC''
   \<and> estimated (spread_entry ''DL1ABC'' (mk_entry 51.2 10.4 ''Germany''))"
proof -
  have dl: "prefixLocations (take 2 ''DL1ABC'') = Some (mk_entry 51.2 10.4 ''Germany'')"
    by (simp add: prefixLocations_def prefixTable_def)
  have k2: "prefixLocations (take 2 ''K1ABC'') = None"
    by (simp add: prefixLocations_def prefixTable_def)
  have k1: "prefixLocations (take 1 ''K1ABC'') = Some (mk_entry 39.8 (-98.5) ''USA'')"
    by (simp add: prefixLocations_def prefixTable_def)
  have x2: "prefixLocations (take 2 ''XX1YY'') = None"
    by (simp add: prefixLocations_def prefixTable_def)
  have x1: "prefixLocations (take 1 ''XX1YY'') = None"
    by (simp add: prefixLocations_def prefixTable_def)
  note a = estimateLocationFromPrefix_spec
    [of "''DL1ABC''" "mk_entry 51.2 10.4 ''Germany''"
        "spread_entry ''DL1ABC'' (mk_entry 51.2 10.4 ''Germany'')"]
  note b = estimateLocationFromPrefix_spec [of "''K1ABC''" "mk_entry 39.8 (-98.5) ''USA''"]
  note c = estimateLocationFromPrefix_spec [of "''XX1YY''"]
  from a dl have r1: "estimateLocationFromPrefix ''DL1ABC''
       = Some (spread_entry ''DL1ABC'' (mk_entry 51.2 10.4 ''Germany''))"
    by blast
  from a r1 have r1': "loc_callsign (spread_entry ''DL1ABC'' (mk_entry 51.2 10.4 ''Germany'')) = ''DL1ABC''
      \<and> estimated (spread_entry ''DL1ABC'' (mk_entry 51.2 10.4 ''Germany''))"
    by blast
  from b k2 k1 have r2: "estimateLocationFromPrefix ''K1ABC''
       = Some (spread_entry ''K1ABC'' (mk_entry 39.8 (-98.5) ''USA''))"
    by blast
  from c x2 x1 have r3: "estimateLocationFromPrefix ''XX1YY'' = None"
    by blast
  from dl k2 k1 x2 x1 r1 r1' r2 r3 show ?thesis by blast
qed

end
